theory Spec2Isabelle
  imports Main "HOL-Library.Sublist"
begin

section \<open>Python values\<close>

text \<open>
  The handlers of \<^verbatim>\<open>src/mcp_obsidian/server.py\<close> are Python functions: the annotation
  of a parameter does not stop a caller from passing a value of another type, and the
  handlers themselves test \<^verbatim>\<open>isinstance(limit, int)\<close>, \<^verbatim>\<open>isinstance(include_content, bool)\<close>
  and \<^verbatim>\<open>not confirm\<close>. A value is therefore a Python object of one of the types JSON
  decodes to. A \<^verbatim>\<open>str\<close> is a list of code points below 256, one \<open>char\<close> each. A
  \<^verbatim>\<open>dict\<close> is the list of its items in insertion order, with string keys (the keys
  of a Python dict are distinct). This program does no arithmetic on a \<^verbatim>\<open>float\<close>; one is
  represented by the text \<^verbatim>\<open>float.__repr__\<close> gives it.
\<close>

datatype pyval =
    PNone
  | PBool bool
  | PInt int
  | PFloat string
  | PStr string
  | PList "pyval list"
  | PDict "(string \<times> pyval) list"

text \<open>Truth value testing, as \<^verbatim>\<open>not v\<close> and \<^verbatim>\<open>if v\<close> do it.\<close>

fun py_truthy :: "pyval \<Rightarrow> bool" where
  "py_truthy PNone = False"
| "py_truthy (PBool b) = b"
| "py_truthy (PInt i) = (i \<noteq> 0)"
| "py_truthy (PFloat r) = (r \<noteq> ''0.0'' \<and> r \<noteq> ''-0.0'')"
| "py_truthy (PStr s) = (s \<noteq> [])"
| "py_truthy (PList xs) = (xs \<noteq> [])"
| "py_truthy (PDict kvs) = (kvs \<noteq> [])"

text \<open>
  \<^verbatim>\<open>isinstance(v, int)\<close>: \<^verbatim>\<open>bool\<close> is a subclass of \<^verbatim>\<open>int\<close>, so \<^verbatim>\<open>True\<close> and
  \<^verbatim>\<open>False\<close> are instances, with the values 1 and 0. The result is the integer the
  comparison \<^verbatim>\<open>v < 1\<close> reads, or \<open>None\<close> when \<^verbatim>\<open>isinstance\<close> is false.
\<close>

fun as_int_instance :: "pyval \<Rightarrow> int option" where
  "as_int_instance (PInt i) = Some i"
| "as_int_instance (PBool b) = Some (if b then 1 else 0)"
| "as_int_instance _ = None"

text \<open>\<^verbatim>\<open>isinstance(v, bool)\<close>.\<close>

fun is_bool_instance :: "pyval \<Rightarrow> bool" where
  "is_bool_instance (PBool b) = True"
| "is_bool_instance _ = False"

text \<open>An argument with a default value: \<open>None\<close> is the argument left out of the call.\<close>

definition arg_or :: "'a option \<Rightarrow> 'a \<Rightarrow> 'a" where
  "arg_or a d = (case a of None \<Rightarrow> d | Some v \<Rightarrow> v)"

section \<open>Exceptions\<close>

text \<open>
  An f-string that formats a value of unknown type is kept as the list of its parts, the
  literal text and the values formatted, in order: the text \<^verbatim>\<open>str()\<close> gives a list or
  a dict is not needed by anything here. Whether the formatting succeeds is: CPython
  refuses to convert an integer of more than 4300 decimal digits to a string (the default
  of \<^verbatim>\<open>sys.get_int_max_str_digits()\<close>) and raises a \<^verbatim>\<open>ValueError\<close>, also when the
  integer is an item of a list or a value of a dict that is formatted. Running out of
  stack or memory is not modelled.
\<close>

datatype fpart = Lit string | Fmt pyval

type_synonym fstring = "fpart list"

definition int_max_str_digits :: nat where
  "int_max_str_digits = 4300"

fun has_oversized_int :: "pyval \<Rightarrow> bool" where
  "has_oversized_int (PInt i) = (10 ^ int_max_str_digits \<le> \<bar>i\<bar>)"
| "has_oversized_int (PList xs) = list_ex has_oversized_int xs"
| "has_oversized_int (PDict kvs) = list_ex (\<lambda>kv. has_oversized_int (snd kv)) kvs"
| "has_oversized_int _ = False"

fun unformattable :: "fpart \<Rightarrow> bool" where
  "unformattable (Lit s) = False"
| "unformattable (Fmt v) = has_oversized_int v"

text \<open>
  The exceptions a handler can end with. \<open>ClientError\<close> is any exception raised inside
  a method of the vault client (module \<^verbatim>\<open>obsidian\<close>), which the handlers do not catch.
\<close>

datatype error =
    RuntimeError fstring
  | ValueError fstring
  | AttributeError
  | TypeError
  | ClientError string

definition int_str_digits_error :: error where
  "int_str_digits_error =
     ValueError [Lit ''Exceeds the limit (4300 digits) for integer string conversion; use sys.set_int_max_str_digits() to increase the limit'']"

text \<open>
  \<^verbatim>\<open>raise RuntimeError(f"...")\<close>: the f-string is evaluated first, and the exception it
  raises, if any, is the one the handler ends with.
\<close>

definition raise_RuntimeError :: "fpart list \<Rightarrow> error" where
  "raise_RuntimeError parts =
     (if list_ex unformattable parts then int_str_digits_error else RuntimeError parts)"

section \<open>The vault client\<close>

text \<open>
  The module \<^verbatim>\<open>obsidian\<close> is imported by the server and is a parameter here: its class
  \<^verbatim>\<open>Obsidian\<close> is constructed from the API key and the host, and each method call gets
  either a value or an exception. The handlers see nothing else of it.
\<close>

datatype call =
    ListFilesInVault
  | ListFilesInDir string
  | GetFileContents string
  | Search string pyval
  | AppendContent string string
  | PatchContent string string string string string
  | PutContent string string
  | DeleteFile string
  | SearchJson pyval
  | GetBatchFileContents "string list"
  | GetPeriodicNote string string
  | GetRecentPeriodicNotes string pyval pyval
  | GetRecentChanges pyval pyval

type_synonym obsidian = "string \<Rightarrow> string \<Rightarrow> call \<Rightarrow> string + pyval"

text \<open>What a handler does to the outside, in order.\<close>

datatype event = Construct string string | Invoke call

record config =
  api_key :: string
  obsidian_host :: string

type_synonym outcome = "event list \<times> (error + pyval)"

text \<open>
  \<^verbatim>\<open>api = obsidian.Obsidian(api_key=api_key, host=obsidian_host)\<close> followed by one method
  call on \<^verbatim>\<open>api\<close>.
\<close>

definition invoke :: "config \<Rightarrow> obsidian \<Rightarrow> call \<Rightarrow> outcome" where
  "invoke cfg ob c =
     ([Construct (api_key cfg) (obsidian_host cfg), Invoke c],
      (case ob (api_key cfg) (obsidian_host cfg) c of
         Inl e \<Rightarrow> Inl (ClientError e)
       | Inr v \<Rightarrow> Inr v))"

text \<open>The rest of a handler, run on the value the client returned.\<close>

definition and_then :: "outcome \<Rightarrow> (pyval \<Rightarrow> error + pyval) \<Rightarrow> outcome" where
  "and_then r f = (fst r, (case snd r of Inl e \<Rightarrow> Inl e | Inr v \<Rightarrow> f v))"

fun is_delete :: "event \<Rightarrow> bool" where
  "is_delete (Invoke (DeleteFile p)) = True"
| "is_delete _ = False"

section \<open>json.dumps(obj, indent=2)\<close>

text \<open>
  The standard library's encoder with its defaults and \<^verbatim>\<open>indent=2\<close>: the item
  separator is a comma, the key separator a colon and a space, every item of a non-empty
  list or dict is on a line of its own, indented by two spaces a level, and
  \<^verbatim>\<open>ensure_ascii\<close> escapes every character outside the printable ASCII range.
\<close>

fun join :: "string \<Rightarrow> string list \<Rightarrow> string" where
  "join sep [] = []"
| "join sep [x] = x"
| "join sep (x # y # ys) = x @ sep @ join sep (y # ys)"

fun str_of_nat :: "nat \<Rightarrow> string" where
  "str_of_nat n =
     (if n < 10 then [''0123456789'' ! n]
      else str_of_nat (n div 10) @ [''0123456789'' ! (n mod 10)])"

declare str_of_nat.simps [simp del]

definition str_of_int :: "int \<Rightarrow> string" where
  "str_of_int i = (if i < 0 then CHR ''-'' # str_of_nat (nat (- i)) else str_of_nat (nat i))"

definition hex_digit :: "nat \<Rightarrow> char" where
  "hex_digit n = ''0123456789abcdef'' ! (n mod 16)"

definition escape_char :: "char \<Rightarrow> string" where
  "escape_char c =
     (if c = CHR 0x22 then [CHR 0x5C, CHR 0x22]
      else if c = CHR 0x5C then [CHR 0x5C, CHR 0x5C]
      else if c = CHR 0x0A then [CHR 0x5C, CHR ''n'']
      else if c = CHR 0x0D then [CHR 0x5C, CHR ''r'']
      else if c = CHR 0x09 then [CHR 0x5C, CHR ''t'']
      else if c = CHR 0x08 then [CHR 0x5C, CHR ''b'']
      else if c = CHR 0x0C then [CHR 0x5C, CHR ''f'']
      else if 0x20 \<le> (of_char c :: nat) \<and> (of_char c :: nat) \<le> 0x7E then [c]
      else [CHR 0x5C, CHR ''u'', CHR ''0'', CHR ''0'',
            hex_digit ((of_char c :: nat) div 16), hex_digit (of_char c :: nat)])"

definition encode_str :: "string \<Rightarrow> string" where
  "encode_str s = CHR 0x22 # concat (map escape_char s) @ [CHR 0x22]"

definition floatstr :: "string \<Rightarrow> string" where
  "floatstr r =
     (if r = ''nan'' then ''NaN''
      else if r = ''inf'' then ''Infinity''
      else if r = ''-inf'' then ''-Infinity''
      else r)"

definition newline_indent :: "nat \<Rightarrow> string" where
  "newline_indent level = CHR 0x0A # replicate (2 * level) CHR '' ''"

fun iterencode :: "nat \<Rightarrow> pyval \<Rightarrow> string" where
  "iterencode level (PStr s) = encode_str s"
| "iterencode level PNone = ''null''"
| "iterencode level (PBool b) = (if b then ''true'' else ''false'')"
| "iterencode level (PInt i) = str_of_int i"
| "iterencode level (PFloat r) = floatstr r"
| "iterencode level (PList xs) =
     (if xs = [] then ''[]''
      else ''['' @ newline_indent (Suc level)
           @ join ('','' @ newline_indent (Suc level)) (map (iterencode (Suc level)) xs)
           @ newline_indent level @ '']'')"
| "iterencode level (PDict kvs) =
     (if kvs = [] then ''{}''
      else ''{'' @ newline_indent (Suc level)
           @ join ('','' @ newline_indent (Suc level))
               (map (\<lambda>kv. encode_str (fst kv) @ '': '' @ iterencode (Suc level) (snd kv)) kvs)
           @ newline_indent level @ ''}'')"

definition json_dumps :: "pyval \<Rightarrow> string" where
  "json_dumps obj = iterencode 0 obj"

section \<open>Attribute access and iteration\<close>

definition bind_e :: "error + 'a \<Rightarrow> ('a \<Rightarrow> error + 'b) \<Rightarrow> error + 'b" where
  "bind_e r f = (case r of Inl e \<Rightarrow> Inl e | Inr v \<Rightarrow> f v)"

text \<open>\<^verbatim>\<open>v.get(key, default)\<close>: only a dict has the method.\<close>

fun py_get :: "pyval \<Rightarrow> string \<Rightarrow> pyval \<Rightarrow> error + pyval" where
  "py_get (PDict kvs) k d = Inr (case map_of kvs k of None \<Rightarrow> d | Some v \<Rightarrow> v)"
| "py_get _ k d = Inl AttributeError"

text \<open>
  \<^verbatim>\<open>for x in v\<close>: a list gives its items, a dict its keys, a str its characters; the
  other values are not iterable.
\<close>

fun py_iter :: "pyval \<Rightarrow> error + pyval list" where
  "py_iter (PList xs) = Inr xs"
| "py_iter (PDict kvs) = Inr (map (\<lambda>kv. PStr (fst kv)) kvs)"
| "py_iter (PStr s) = Inr (map (\<lambda>c. PStr [c]) s)"
| "py_iter _ = Inl TypeError"

section \<open>Handlers\<close>

definition obsidian_list_files_in_vault :: "config \<Rightarrow> obsidian \<Rightarrow> outcome" where
  "obsidian_list_files_in_vault cfg ob =
     and_then (invoke cfg ob ListFilesInVault) (\<lambda>files. Inr (PStr (json_dumps files)))"

definition obsidian_list_files_in_dir :: "config \<Rightarrow> obsidian \<Rightarrow> string \<Rightarrow> outcome" where
  "obsidian_list_files_in_dir cfg ob dirpath =
     and_then (invoke cfg ob (ListFilesInDir dirpath)) (\<lambda>files. Inr (PStr (json_dumps files)))"

definition obsidian_get_file_contents :: "config \<Rightarrow> obsidian \<Rightarrow> string \<Rightarrow> outcome" where
  "obsidian_get_file_contents cfg ob filepath =
     and_then (invoke cfg ob (GetFileContents filepath))
       (\<lambda>content. Inr (PStr (json_dumps content)))"

definition format_match :: "pyval \<Rightarrow> error + pyval" where
  "format_match m =
     bind_e (py_get m ''context'' (PStr [])) (\<lambda>context.
     bind_e (py_get m ''match'' (PDict [])) (\<lambda>match_pos.
     bind_e (py_get match_pos ''start'' (PInt 0)) (\<lambda>start.
     bind_e (py_get match_pos ''end'' (PInt 0)) (\<lambda>end.
     Inr (PDict [(''context'', context),
                 (''match_position'', PDict [(''start'', start), (''end'', end)])])))))"

fun format_matches :: "pyval list \<Rightarrow> pyval list \<Rightarrow> error + pyval list" where
  "format_matches [] formatted_matches = Inr formatted_matches"
| "format_matches (m # ms) formatted_matches =
     bind_e (format_match m) (\<lambda>fm. format_matches ms (formatted_matches @ [fm]))"

definition format_result :: "pyval \<Rightarrow> error + pyval" where
  "format_result result =
     bind_e (py_get result ''matches'' (PList [])) (\<lambda>matches.
     bind_e (py_iter matches) (\<lambda>ms.
     bind_e (format_matches ms []) (\<lambda>formatted_matches.
     bind_e (py_get result ''filename'' (PStr [])) (\<lambda>filename.
     bind_e (py_get result ''score'' (PInt 0)) (\<lambda>score.
     Inr (PDict [(''filename'', filename),
                 (''score'', score),
                 (''matches'', PList formatted_matches)]))))))"

fun format_results :: "pyval list \<Rightarrow> pyval list \<Rightarrow> error + pyval list" where
  "format_results [] formatted_results = Inr formatted_results"
| "format_results (r # rs) formatted_results =
     bind_e (format_result r) (\<lambda>fr. format_results rs (formatted_results @ [fr]))"

definition obsidian_simple_search :: "config \<Rightarrow> obsidian \<Rightarrow> string \<Rightarrow> pyval option \<Rightarrow> outcome" where
  "obsidian_simple_search cfg ob query context_length_arg =
     (let context_length = arg_or context_length_arg (PInt 100) in
      and_then (invoke cfg ob (Search query context_length))
        (\<lambda>results.
           bind_e (py_iter results) (\<lambda>rs.
           bind_e (format_results rs []) (\<lambda>formatted_results.
           Inr (PStr (json_dumps (PList formatted_results)))))))"

definition obsidian_append_content :: "config \<Rightarrow> obsidian \<Rightarrow> string \<Rightarrow> string \<Rightarrow> outcome" where
  "obsidian_append_content cfg ob filepath content =
     and_then (invoke cfg ob (AppendContent filepath content))
       (\<lambda>_. Inr (PStr (''Successfully appended content to '' @ filepath)))"

definition obsidian_patch_content ::
  "config \<Rightarrow> obsidian \<Rightarrow> string \<Rightarrow> string \<Rightarrow> string \<Rightarrow> string \<Rightarrow> string \<Rightarrow> outcome" where
  "obsidian_patch_content cfg ob filepath operation target_type target content =
     and_then (invoke cfg ob (PatchContent filepath operation target_type target content))
       (\<lambda>_. Inr (PStr (''Successfully patched content in '' @ filepath)))"

definition obsidian_put_content :: "config \<Rightarrow> obsidian \<Rightarrow> string \<Rightarrow> string \<Rightarrow> outcome" where
  "obsidian_put_content cfg ob filepath content =
     and_then (invoke cfg ob (PutContent filepath content))
       (\<lambda>_. Inr (PStr (''Successfully uploaded content to '' @ filepath)))"

definition obsidian_delete_file :: "config \<Rightarrow> obsidian \<Rightarrow> string \<Rightarrow> pyval option \<Rightarrow> outcome" where
  "obsidian_delete_file cfg ob filepath confirm_arg =
     (let confirm = arg_or confirm_arg (PBool False) in
      if \<not> py_truthy confirm then
        ([], Inl (RuntimeError [Lit ''confirm must be set to true to delete a file'']))
      else
        and_then (invoke cfg ob (DeleteFile filepath))
          (\<lambda>_. Inr (PStr (''Successfully deleted '' @ filepath))))"

definition obsidian_complex_search :: "config \<Rightarrow> obsidian \<Rightarrow> pyval \<Rightarrow> outcome" where
  "obsidian_complex_search cfg ob query =
     and_then (invoke cfg ob (SearchJson query)) (\<lambda>results. Inr (PStr (json_dumps results)))"

definition obsidian_batch_get_file_contents :: "config \<Rightarrow> obsidian \<Rightarrow> string list \<Rightarrow> outcome" where
  "obsidian_batch_get_file_contents cfg ob filepaths =
     and_then (invoke cfg ob (GetBatchFileContents filepaths)) (\<lambda>content. Inr content)"

definition valid_periods :: "string list" where
  "valid_periods = [''daily'', ''weekly'', ''monthly'', ''quarterly'', ''yearly'']"

definition valid_types :: "string list" where
  "valid_types = [''content'', ''metadata'']"

definition invalid_period :: "string \<Rightarrow> error" where
  "invalid_period period =
     RuntimeError [Lit ''Invalid period: '', Fmt (PStr period),
                   Lit ''. Must be one of: '', Fmt (PStr (join '', '' valid_periods))]"

definition invalid_type :: "string \<Rightarrow> error" where
  "invalid_type type =
     RuntimeError [Lit ''Invalid type: '', Fmt (PStr type),
                   Lit ''. Must be one of: '', Fmt (PStr (join '', '' valid_types))]"

definition obsidian_get_periodic_note :: "config \<Rightarrow> obsidian \<Rightarrow> string \<Rightarrow> string option \<Rightarrow> outcome" where
  "obsidian_get_periodic_note cfg ob period type_arg =
     (let type = arg_or type_arg ''content'' in
      if period \<notin> set valid_periods then ([], Inl (invalid_period period))
      else if type \<notin> set valid_types then ([], Inl (invalid_type type))
      else and_then (invoke cfg ob (GetPeriodicNote period type)) (\<lambda>content. Inr content))"

text \<open>\<^verbatim>\<open>not isinstance(v, int) or v < 1\<close>.\<close>

definition not_int_or_below_one :: "pyval \<Rightarrow> bool" where
  "not_int_or_below_one v = (case as_int_instance v of None \<Rightarrow> True | Some n \<Rightarrow> n < 1)"

definition invalid_number :: "string \<Rightarrow> pyval \<Rightarrow> error" where
  "invalid_number name v =
     raise_RuntimeError
       [Lit (''Invalid '' @ name @ '': ''), Fmt v, Lit ''. Must be a positive integer'']"

definition obsidian_get_recent_periodic_notes ::
  "config \<Rightarrow> obsidian \<Rightarrow> string \<Rightarrow> pyval option \<Rightarrow> pyval option \<Rightarrow> outcome" where
  "obsidian_get_recent_periodic_notes cfg ob period limit_arg include_content_arg =
     (let limit = arg_or limit_arg (PInt 5);
          include_content = arg_or include_content_arg (PBool False) in
      if period \<notin> set valid_periods then ([], Inl (invalid_period period))
      else if not_int_or_below_one limit then ([], Inl (invalid_number ''limit'' limit))
      else if \<not> is_bool_instance include_content then
        ([], Inl (raise_RuntimeError [Lit ''Invalid include_content: '', Fmt include_content,
                                     Lit ''. Must be a boolean'']))
      else
        and_then (invoke cfg ob (GetRecentPeriodicNotes period limit include_content))
          (\<lambda>results. Inr (PStr (json_dumps results))))"

definition obsidian_get_recent_changes ::
  "config \<Rightarrow> obsidian \<Rightarrow> pyval option \<Rightarrow> pyval option \<Rightarrow> outcome" where
  "obsidian_get_recent_changes cfg ob limit_arg days_arg =
     (let limit = arg_or limit_arg (PInt 10);
          days = arg_or days_arg (PInt 90) in
      if not_int_or_below_one limit then ([], Inl (invalid_number ''limit'' limit))
      else if not_int_or_below_one days then ([], Inl (invalid_number ''days'' days))
      else
        and_then (invoke cfg ob (GetRecentChanges limit days))
          (\<lambda>results. Inr (PStr (json_dumps results))))"

section \<open>Start of the process and the tool registry\<close>

text \<open>
  The module reads its two settings when it is imported, after \<^verbatim>\<open>load_dotenv()\<close>; the
  environment here is the one \<^verbatim>\<open>os.getenv\<close> sees at that point. The handlers are
  registered below the check of the key, so none exists when the check raises.
\<close>

type_synonym environ = "string \<rightharpoonup> string"

definition module_init :: "environ \<Rightarrow> string \<Rightarrow> error + config" where
  "module_init environ cwd =
     (let key = environ ''OBSIDIAN_API_KEY'';
          host = (case environ ''OBSIDIAN_HOST'' of None \<Rightarrow> ''127.0.0.1'' | Some h \<Rightarrow> h) in
      case key of
        None \<Rightarrow> Inl (ValueError [Lit ''OBSIDIAN_API_KEY environment variable required. Working directory: '', Fmt (PStr cwd)])
      | Some k \<Rightarrow>
          if k = [] then
            Inl (ValueError [Lit ''OBSIDIAN_API_KEY environment variable required. Working directory: '', Fmt (PStr cwd)])
          else Inr \<lparr>api_key = k, obsidian_host = host\<rparr>)"

text \<open>
  A tool call as the registry hands it to its handler. The decorator \<^verbatim>\<open>@mcp.tool()\<close>
  has FastMCP validate the arguments of a call against the annotations of the handler's
  parameters before the handler runs: an argument it accepts arrives as a value of the
  annotated type (converted where needed), and a call it refuses never reaches the
  handler. An argument left out takes the default of its parameter.
\<close>

datatype tool_call =
    Tool_list_files_in_vault
  | Tool_list_files_in_dir string
  | Tool_get_file_contents string
  | Tool_simple_search string "int option"
  | Tool_append_content string string
  | Tool_patch_content string string string string string
  | Tool_put_content string string
  | Tool_delete_file string "bool option"
  | Tool_complex_search "(string \<times> pyval) list"
  | Tool_batch_get_file_contents "string list"
  | Tool_get_periodic_note string "string option"
  | Tool_get_recent_periodic_notes string "int option" "bool option"
  | Tool_get_recent_changes "int option" "int option"

fun call_tool :: "config \<Rightarrow> obsidian \<Rightarrow> tool_call \<Rightarrow> outcome" where
  "call_tool cfg ob Tool_list_files_in_vault = obsidian_list_files_in_vault cfg ob"
| "call_tool cfg ob (Tool_list_files_in_dir d) = obsidian_list_files_in_dir cfg ob d"
| "call_tool cfg ob (Tool_get_file_contents p) = obsidian_get_file_contents cfg ob p"
| "call_tool cfg ob (Tool_simple_search q n) = obsidian_simple_search cfg ob q (map_option PInt n)"
| "call_tool cfg ob (Tool_append_content p c) = obsidian_append_content cfg ob p c"
| "call_tool cfg ob (Tool_patch_content p op tt t c) = obsidian_patch_content cfg ob p op tt t c"
| "call_tool cfg ob (Tool_put_content p c) = obsidian_put_content cfg ob p c"
| "call_tool cfg ob (Tool_delete_file p c) = obsidian_delete_file cfg ob p (map_option PBool c)"
| "call_tool cfg ob (Tool_complex_search q) = obsidian_complex_search cfg ob (PDict q)"
| "call_tool cfg ob (Tool_batch_get_file_contents ps) = obsidian_batch_get_file_contents cfg ob ps"
| "call_tool cfg ob (Tool_get_periodic_note p t) = obsidian_get_periodic_note cfg ob p t"
| "call_tool cfg ob (Tool_get_recent_periodic_notes p l i) =
     obsidian_get_recent_periodic_notes cfg ob p (map_option PInt l) (map_option PBool i)"
| "call_tool cfg ob (Tool_get_recent_changes l d) =
     obsidian_get_recent_changes cfg ob (map_option PInt l) (map_option PInt d)"

text \<open>One tool call to a process started in the given environment.\<close>

definition serve :: "environ \<Rightarrow> string \<Rightarrow> obsidian \<Rightarrow> tool_call \<Rightarrow> outcome" where
  "serve environ cwd ob t =
     (case module_init environ cwd of
        Inl e \<Rightarrow> ([], Inl e)
      | Inr cfg \<Rightarrow> call_tool cfg ob t)"

section \<open>The shape of a search result, as specified\<close>

text \<open>
  The specified result of the simple search, written as a plain transformation of the raw
  results: a field is taken from the raw item when it is there and is the default when
  it is absent.
\<close>

fun field :: "pyval \<Rightarrow> string \<Rightarrow> pyval option" where
  "field (PDict kvs) k = map_of kvs k"
| "field _ k = None"

definition field_or :: "pyval \<Rightarrow> string \<Rightarrow> pyval \<Rightarrow> pyval" where
  "field_or v k d = (case field v k of None \<Rightarrow> d | Some x \<Rightarrow> x)"

fun is_dict :: "pyval \<Rightarrow> bool" where
  "is_dict (PDict kvs) = True"
| "is_dict _ = False"

text \<open>
  A raw match is a dict whose \<^verbatim>\<open>match\<close>, when present, is a dict; a raw result is a dict
  whose \<^verbatim>\<open>matches\<close>, when present, is a list of raw matches.
\<close>

definition raw_match :: "pyval \<Rightarrow> bool" where
  "raw_match m = (is_dict m \<and> (case field m ''match'' of None \<Rightarrow> True | Some p \<Rightarrow> is_dict p))"

fun raw_matches :: "pyval option \<Rightarrow> pyval list option" where
  "raw_matches None = Some []"
| "raw_matches (Some (PList ms)) = Some ms"
| "raw_matches (Some _) = None"

definition raw_result :: "pyval \<Rightarrow> bool" where
  "raw_result r =
     (is_dict r \<and>
      (case raw_matches (field r ''matches'') of None \<Rightarrow> False | Some ms \<Rightarrow> list_all raw_match ms))"

definition shape_match :: "pyval \<Rightarrow> pyval" where
  "shape_match m =
     PDict [(''context'', field_or m ''context'' (PStr [])),
            (''match_position'',
               PDict [(''start'', field_or (field_or m ''match'' (PDict [])) ''start'' (PInt 0)),
                      (''end'', field_or (field_or m ''match'' (PDict [])) ''end'' (PInt 0))])]"

definition shape_result :: "pyval \<Rightarrow> pyval" where
  "shape_result r =
     PDict [(''filename'', field_or r ''filename'' (PStr [])),
            (''score'', field_or r ''score'' (PInt 0)),
            (''matches'',
               PList (map shape_match
                 (case raw_matches (field r ''matches'') of None \<Rightarrow> [] | Some ms \<Rightarrow> ms)))]"

section \<open>The batch read of the vault client, as specified\<close>

text \<open>
  Modelled from the spec: the method \<^verbatim>\<open>get_batch_file_contents\<close> of the vault client
  (module \<^verbatim>\<open>obsidian\<close>, not part of the sources at hand). The spec, section 4.1: it returns
  a single concatenated text blob; each file's content is preceded by a header line
  identifying its path; a missing file produces an inline error marker within the blob
  rather than aborting the whole batch. The spec fixes neither the header nor the marker,
  so both are parameters; the vault maps the path of each file that exists to its content.
\<close>

type_synonym vault = "string \<rightharpoonup> string"

definition spec_get_batch_file_contents ::
  "(string \<Rightarrow> string) \<Rightarrow> (string \<Rightarrow> string) \<Rightarrow> vault \<Rightarrow> string list \<Rightarrow> string" where
  "spec_get_batch_file_contents header marker v filepaths =
     concat (map (\<lambda>p. header p @ (case v p of None \<Rightarrow> marker p | Some c \<Rightarrow> c)) filepaths)"

section \<open>Concrete inputs\<close>

definition demo_config :: config where
  "demo_config = \<lparr>api_key = ''secret'', obsidian_host = ''127.0.0.1''\<rparr>"

definition demo_vault :: vault where
  "demo_vault = [''a.md'' \<mapsto> ''alpha'']"

definition demo_header :: "string \<Rightarrow> string" where
  "demo_header p = ''# '' @ p @ [CHR 0x0A]"

definition demo_marker :: "string \<Rightarrow> string" where
  "demo_marker p = ''Error reading file: '' @ p @ [CHR 0x0A]"

definition demo_raw_results :: pyval where
  "demo_raw_results =
     PList [PDict [(''filename'', PStr ''a.md''), (''score'', PInt 3),
                   (''matches'',
                      PList [PDict [(''context'', PStr ''alpha''),
                                    (''match'', PDict [(''start'', PInt 0), (''end'', PInt 5)])],
                             PDict []])],
            PDict []]"

fun demo_responses :: "call \<Rightarrow> string + pyval" where
  "demo_responses (Search q n) = Inr demo_raw_results"
| "demo_responses (GetFileContents p) = Inr (PStr ''hi'')"
| "demo_responses (GetPeriodicNote p t) = Inr (PStr ''today'')"
| "demo_responses (GetBatchFileContents ps) =
     Inr (PStr (spec_get_batch_file_contents demo_header demo_marker demo_vault ps))"
| "demo_responses (SearchJson q) = Inr (PList [PStr ''a.md''])"
| "demo_responses _ = Inr (PList [])"

definition demo_client :: obsidian where
  "demo_client k h c = demo_responses c"

section \<open>Facts about the helpers\<close>

lemma fst_and_then_invoke:
  "fst (and_then (invoke cfg ob c) f) = [Construct (api_key cfg) (obsidian_host cfg), Invoke c]"
  by (simp add: and_then_def invoke_def)

lemma not_int_or_below_one_cases:
  "not_int_or_below_one (PInt n) = (n < 1)"
  "not_int_or_below_one (PBool b) = (\<not> b)"
  "not_int_or_below_one PNone"
  "not_int_or_below_one (PFloat r)"
  "not_int_or_below_one (PStr s)"
  "not_int_or_below_one (PList xs)"
  "not_int_or_below_one (PDict kvs)"
  by (simp_all add: not_int_or_below_one_def)

section \<open>The confirmation gate of the deletion\<close>

text \<open>
  C1. \<^verbatim>\<open>obsidian_delete_file\<close> with \<^verbatim>\<open>confirm\<close> left out, or with a value that is false
  under truth value testing, raises the \<^verbatim>\<open>RuntimeError\<close> and does nothing to the outside:
  no client is constructed and the delete operation is not invoked. With a value that is
  true, it constructs the client and invokes the delete operation on the given path,
  exactly once, whatever the client then answers.
\<close>

theorem delete_file_confirm_gate:
  "obsidian_delete_file cfg ob filepath None =
     ([], Inl (RuntimeError [Lit ''confirm must be set to true to delete a file'']))
   \<and> (\<not> py_truthy confirm \<longrightarrow>
        obsidian_delete_file cfg ob filepath (Some confirm) =
          ([], Inl (RuntimeError [Lit ''confirm must be set to true to delete a file''])))
   \<and> (py_truthy confirm \<longrightarrow>
        fst (obsidian_delete_file cfg ob filepath (Some confirm)) =
          [Construct (api_key cfg) (obsidian_host cfg), Invoke (DeleteFile filepath)]
        \<and> length (filter is_delete (fst (obsidian_delete_file cfg ob filepath (Some confirm)))) = 1)"
  by (simp add: obsidian_delete_file_def arg_or_def fst_and_then_invoke)

theorem delete_file_confirm_gate_witness:
  "\<not> py_truthy (PBool False)
   \<and> obsidian_delete_file demo_config demo_client ''a.md'' (Some (PBool False)) =
       ([], Inl (RuntimeError [Lit ''confirm must be set to true to delete a file'']))
   \<and> py_truthy (PBool True)
   \<and> fst (obsidian_delete_file demo_config demo_client ''a.md'' (Some (PBool True))) =
       [Construct ''secret'' ''127.0.0.1'', Invoke (DeleteFile ''a.md'')]"
  using delete_file_confirm_gate [of demo_config demo_client "''a.md''" "PBool False"]
        delete_file_confirm_gate [of demo_config demo_client "''a.md''" "PBool True"]
  by (simp add: demo_config_def)

section \<open>Validation of the enumerated parameters\<close>

text \<open>
  C2, as the claim states it, fails at \<^verbatim>\<open>obsidian_patch_content\<close>: an operation and a
  target type outside the sets its docstring lists reach the client, and the handler
  returns its confirmation.
\<close>

theorem patch_content_unvalidated_counterexample:
  "''explode'' \<notin> set [''append'', ''prepend'', ''replace'']
   \<and> ''paragraph'' \<notin> set [''heading'', ''block'', ''frontmatter'']
   \<and> obsidian_patch_content demo_config demo_client ''a.md'' ''explode'' ''paragraph'' ''t'' ''c'' =
       ([Construct ''secret'' ''127.0.0.1'',
         Invoke (PatchContent ''a.md'' ''explode'' ''paragraph'' ''t'' ''c'')],
        Inr (PStr ''Successfully patched content in a.md''))"
  by (simp add: obsidian_patch_content_def and_then_def invoke_def demo_config_def demo_client_def)

text \<open>
  C2, amended. In \<^verbatim>\<open>obsidian_get_periodic_note\<close> and
  \<^verbatim>\<open>obsidian_get_recent_periodic_notes\<close>, a period outside the five valid ones raises a
  \<^verbatim>\<open>RuntimeError\<close> that names the period given and the valid ones, and nothing is done to
  the outside. In \<^verbatim>\<open>obsidian_get_periodic_note\<close>, a type outside the two valid ones
  raises with nothing done to the outside as well; the period is checked first, so the
  error names the type and the valid types when the period is valid.
  \<^verbatim>\<open>obsidian_patch_content\<close> checks neither the operation nor the target type: it
  constructs the client and passes both on as given.
\<close>

theorem enum_parameters_validated:
  "(period \<notin> set valid_periods \<longrightarrow>
      obsidian_get_periodic_note cfg ob period type_arg =
        ([], Inl (RuntimeError [Lit ''Invalid period: '', Fmt (PStr period),
                                Lit ''. Must be one of: '',
                                Fmt (PStr ''daily, weekly, monthly, quarterly, yearly'')]))
      \<and> obsidian_get_recent_periodic_notes cfg ob period limit_arg include_arg =
        ([], Inl (RuntimeError [Lit ''Invalid period: '', Fmt (PStr period),
                                Lit ''. Must be one of: '',
                                Fmt (PStr ''daily, weekly, monthly, quarterly, yearly'')])))
   \<and> (type \<notin> set valid_types \<longrightarrow>
        (\<exists>msg. obsidian_get_periodic_note cfg ob period (Some type) = ([], Inl (RuntimeError msg))))
   \<and> (period \<in> set valid_periods \<and> type \<notin> set valid_types \<longrightarrow>
        obsidian_get_periodic_note cfg ob period (Some type) =
          ([], Inl (RuntimeError [Lit ''Invalid type: '', Fmt (PStr type),
                                  Lit ''. Must be one of: '', Fmt (PStr ''content, metadata'')])))
   \<and> fst (obsidian_patch_content cfg ob filepath operation target_type target content) =
        [Construct (api_key cfg) (obsidian_host cfg),
         Invoke (PatchContent filepath operation target_type target content)]"
proof -
  have periods: "join '', '' valid_periods = ''daily, weekly, monthly, quarterly, yearly''"
    by (simp add: valid_periods_def)
  have types: "join '', '' valid_types = ''content, metadata''"
    by (simp add: valid_types_def)
  have p1: "period \<notin> set valid_periods \<Longrightarrow>
      obsidian_get_periodic_note cfg ob period type_arg =
        ([], Inl (RuntimeError [Lit ''Invalid period: '', Fmt (PStr period),
                                Lit ''. Must be one of: '',
                                Fmt (PStr ''daily, weekly, monthly, quarterly, yearly'')]))"
    by (simp add: obsidian_get_periodic_note_def invalid_period_def periods Let_def)
  have p2: "period \<notin> set valid_periods \<Longrightarrow>
      obsidian_get_recent_periodic_notes cfg ob period limit_arg include_arg =
        ([], Inl (RuntimeError [Lit ''Invalid period: '', Fmt (PStr period),
                                Lit ''. Must be one of: '',
                                Fmt (PStr ''daily, weekly, monthly, quarterly, yearly'')]))"
    by (simp add: obsidian_get_recent_periodic_notes_def invalid_period_def periods Let_def)
  have t1: "type \<notin> set valid_types \<Longrightarrow>
      \<exists>msg. obsidian_get_periodic_note cfg ob period (Some type) = ([], Inl (RuntimeError msg))"
    by (simp add: obsidian_get_periodic_note_def invalid_period_def invalid_type_def
        arg_or_def Let_def)
  have t2: "period \<in> set valid_periods \<Longrightarrow> type \<notin> set valid_types \<Longrightarrow>
      obsidian_get_periodic_note cfg ob period (Some type) =
          ([], Inl (RuntimeError [Lit ''Invalid type: '', Fmt (PStr type),
                                  Lit ''. Must be one of: '', Fmt (PStr ''content, metadata'')]))"
    by (simp add: obsidian_get_periodic_note_def invalid_type_def types arg_or_def Let_def)
  have pc: "fst (obsidian_patch_content cfg ob filepath operation target_type target content) =
        [Construct (api_key cfg) (obsidian_host cfg),
         Invoke (PatchContent filepath operation target_type target content)]"
    by (simp add: obsidian_patch_content_def fst_and_then_invoke)
  from p1 p2 t1 t2 pc show ?thesis by blast
qed

theorem enum_parameters_validated_witness:
  "''hourly'' \<notin> set valid_periods
   \<and> obsidian_get_periodic_note demo_config demo_client ''hourly'' None =
       ([], Inl (RuntimeError [Lit ''Invalid period: '', Fmt (PStr ''hourly''),
                               Lit ''. Must be one of: '',
                               Fmt (PStr ''daily, weekly, monthly, quarterly, yearly'')]))
   \<and> obsidian_get_recent_periodic_notes demo_config demo_client ''hourly'' None None =
       ([], Inl (RuntimeError [Lit ''Invalid period: '', Fmt (PStr ''hourly''),
                               Lit ''. Must be one of: '',
                               Fmt (PStr ''daily, weekly, monthly, quarterly, yearly'')]))
   \<and> ''daily'' \<in> set valid_periods \<and> ''summary'' \<notin> set valid_types
   \<and> obsidian_get_periodic_note demo_config demo_client ''daily'' (Some ''summary'') =
       ([], Inl (RuntimeError [Lit ''Invalid type: '', Fmt (PStr ''summary''),
                               Lit ''. Must be one of: '', Fmt (PStr ''content, metadata'')]))"
proof -
  have h: "''hourly'' \<notin> set valid_periods" by (simp add: valid_periods_def)
  have d: "''daily'' \<in> set valid_periods" by (simp add: valid_periods_def)
  have s: "''summary'' \<notin> set valid_types" by (simp add: valid_types_def)
  show ?thesis
    using h d s
      enum_parameters_validated [of "''hourly''" demo_config demo_client None None None "''summary''"]
      enum_parameters_validated [of "''daily''" demo_config demo_client None None None "''summary''"]
    by simp
qed

section \<open>Validation of the numeric parameters\<close>

lemma digits_bound_large: "(1000000::int) < 10 ^ int_max_str_digits"
proof -
  have "(10::int) ^ 6 < 10 ^ int_max_str_digits"
    unfolding int_max_str_digits_def by (rule power_strict_increasing) simp_all
  then show ?thesis by simp
qed

lemma small_int_formattable: "\<bar>i\<bar> \<le> 1000000 \<Longrightarrow> \<not> has_oversized_int (PInt i)"
  using digits_bound_large by simp

lemma invalid_number_cases:
  "invalid_number name v =
     (if has_oversized_int v then int_str_digits_error
      else RuntimeError [Lit (''Invalid '' @ name @ '': ''), Fmt v,
                         Lit ''. Must be a positive integer''])"
  by (simp add: invalid_number_def raise_RuntimeError_def)

text \<open>
  C3, as the claim states it, fails at \<^verbatim>\<open>context_length\<close>: \<^verbatim>\<open>obsidian_simple_search\<close>
  does not check it, so zero and a negative number each reach the client's search.
\<close>

theorem context_length_unvalidated_counterexample:
  "fst (obsidian_simple_search demo_config demo_client ''alpha'' (Some (PInt 0))) =
     [Construct ''secret'' ''127.0.0.1'', Invoke (Search ''alpha'' (PInt 0))]
   \<and> fst (obsidian_simple_search demo_config demo_client ''alpha'' (Some (PInt (- 7)))) =
     [Construct ''secret'' ''127.0.0.1'', Invoke (Search ''alpha'' (PInt (- 7)))]"
  by (simp add: obsidian_simple_search_def arg_or_def fst_and_then_invoke demo_config_def)

text \<open>
  C3, amended. For \<^verbatim>\<open>limit\<close> and \<^verbatim>\<open>days\<close> of \<^verbatim>\<open>obsidian_get_recent_changes\<close> and for
  \<^verbatim>\<open>limit\<close> of \<^verbatim>\<open>obsidian_get_recent_periodic_notes\<close> (its period being valid), a value
  that is not an instance of \<^verbatim>\<open>int\<close>, or is below 1, makes the handler raise with nothing
  done to the outside. The exception is the \<^verbatim>\<open>RuntimeError\<close> naming the value; when the
  value is or holds an integer of more than 4300 digits, which cannot be formatted into
  the message, it is the \<^verbatim>\<open>ValueError\<close> of that conversion. An integer from 1 up is
  passed to the client call as it is. The values rejected are the integers below 1,
  \<^verbatim>\<open>False\<close>, \<^verbatim>\<open>None\<close>, and every float, string, list and dict; \<^verbatim>\<open>True\<close> is an instance
  of \<^verbatim>\<open>int\<close> and not below 1. The \<^verbatim>\<open>context_length\<close> of \<^verbatim>\<open>obsidian_simple_search\<close>
  is not checked for being positive: every integer, zero and the negative ones included,
  is passed to the client's search as it is.
\<close>

theorem numeric_parameters_validated:
  "(not_int_or_below_one limit \<longrightarrow>
      obsidian_get_recent_changes cfg ob (Some limit) days_arg =
        ([], Inl (if has_oversized_int limit then int_str_digits_error
                  else RuntimeError [Lit ''Invalid limit: '', Fmt limit,
                                     Lit ''. Must be a positive integer''])))
   \<and> (1 \<le> n \<and> not_int_or_below_one days \<longrightarrow>
        obsidian_get_recent_changes cfg ob (Some (PInt n)) (Some days) =
          ([], Inl (if has_oversized_int days then int_str_digits_error
                    else RuntimeError [Lit ''Invalid days: '', Fmt days,
                                       Lit ''. Must be a positive integer''])))
   \<and> (period \<in> set valid_periods \<and> not_int_or_below_one limit \<longrightarrow>
        obsidian_get_recent_periodic_notes cfg ob period (Some limit) include_arg =
          ([], Inl (if has_oversized_int limit then int_str_digits_error
                    else RuntimeError [Lit ''Invalid limit: '', Fmt limit,
                                       Lit ''. Must be a positive integer''])))
   \<and> (1 \<le> n \<and> 1 \<le> d \<longrightarrow>
        fst (obsidian_get_recent_changes cfg ob (Some (PInt n)) (Some (PInt d))) =
          [Construct (api_key cfg) (obsidian_host cfg), Invoke (GetRecentChanges (PInt n) (PInt d))])
   \<and> (1 \<le> n \<and> period \<in> set valid_periods \<longrightarrow>
        fst (obsidian_get_recent_periodic_notes cfg ob period (Some (PInt n)) (Some (PBool b))) =
          [Construct (api_key cfg) (obsidian_host cfg),
           Invoke (GetRecentPeriodicNotes period (PInt n) (PBool b))])
   \<and> fst (obsidian_simple_search cfg ob query (Some (PInt j))) =
        [Construct (api_key cfg) (obsidian_host cfg), Invoke (Search query (PInt j))]
   \<and> not_int_or_below_one (PInt i) = (i < 1)
   \<and> not_int_or_below_one (PBool c) = (\<not> c)
   \<and> not_int_or_below_one PNone
   \<and> not_int_or_below_one (PFloat r)
   \<and> not_int_or_below_one (PStr s)
   \<and> not_int_or_below_one (PList xs)
   \<and> not_int_or_below_one (PDict kvs)"
proof -
  have a: "not_int_or_below_one limit \<Longrightarrow>
      obsidian_get_recent_changes cfg ob (Some limit) days_arg =
        ([], Inl (if has_oversized_int limit then int_str_digits_error
                  else RuntimeError [Lit ''Invalid limit: '', Fmt limit,
                                     Lit ''. Must be a positive integer'']))"
    by (simp add: obsidian_get_recent_changes_def arg_or_def invalid_number_cases Let_def)
  have b: "1 \<le> n \<Longrightarrow> not_int_or_below_one days \<Longrightarrow>
        obsidian_get_recent_changes cfg ob (Some (PInt n)) (Some days) =
          ([], Inl (if has_oversized_int days then int_str_digits_error
                    else RuntimeError [Lit ''Invalid days: '', Fmt days,
                                       Lit ''. Must be a positive integer'']))"
    by (simp add: obsidian_get_recent_changes_def arg_or_def invalid_number_cases Let_def
        not_int_or_below_one_cases)
  have c: "period \<in> set valid_periods \<Longrightarrow> not_int_or_below_one limit \<Longrightarrow>
        obsidian_get_recent_periodic_notes cfg ob period (Some limit) include_arg =
          ([], Inl (if has_oversized_int limit then int_str_digits_error
                    else RuntimeError [Lit ''Invalid limit: '', Fmt limit,
                                       Lit ''. Must be a positive integer'']))"
    by (simp add: obsidian_get_recent_periodic_notes_def arg_or_def invalid_number_cases Let_def)
  have d: "1 \<le> n \<Longrightarrow> 1 \<le> d \<Longrightarrow>
        fst (obsidian_get_recent_changes cfg ob (Some (PInt n)) (Some (PInt d))) =
          [Construct (api_key cfg) (obsidian_host cfg), Invoke (GetRecentChanges (PInt n) (PInt d))]"
    by (simp add: obsidian_get_recent_changes_def arg_or_def Let_def
        not_int_or_below_one_cases fst_and_then_invoke)
  have e: "1 \<le> n \<Longrightarrow> period \<in> set valid_periods \<Longrightarrow>
        fst (obsidian_get_recent_periodic_notes cfg ob period (Some (PInt n)) (Some (PBool b))) =
          [Construct (api_key cfg) (obsidian_host cfg),
           Invoke (GetRecentPeriodicNotes period (PInt n) (PBool b))]"
    by (simp add: obsidian_get_recent_periodic_notes_def arg_or_def Let_def
        not_int_or_below_one_cases fst_and_then_invoke)
  have f: "fst (obsidian_simple_search cfg ob query (Some (PInt j))) =
        [Construct (api_key cfg) (obsidian_host cfg), Invoke (Search query (PInt j))]"
    by (simp add: obsidian_simple_search_def arg_or_def fst_and_then_invoke)
  have g: "not_int_or_below_one (PInt i) = (i < 1)"
    "not_int_or_below_one (PBool c) = (\<not> c)"
    "not_int_or_below_one PNone"
    "not_int_or_below_one (PFloat r)"
    "not_int_or_below_one (PStr s)"
    "not_int_or_below_one (PList xs)"
    "not_int_or_below_one (PDict kvs)"
    by (rule not_int_or_below_one_cases)+
  from a b c d e f g show ?thesis by blast
qed

theorem numeric_parameters_validated_witness:
  "not_int_or_below_one (PInt 0)
   \<and> obsidian_get_recent_changes demo_config demo_client (Some (PInt 0)) None =
       ([], Inl (RuntimeError [Lit ''Invalid limit: '', Fmt (PInt 0),
                               Lit ''. Must be a positive integer'']))
   \<and> not_int_or_below_one (PFloat ''2.5'')
   \<and> obsidian_get_recent_changes demo_config demo_client (Some (PInt 3)) (Some (PFloat ''2.5'')) =
       ([], Inl (RuntimeError [Lit ''Invalid days: '', Fmt (PFloat ''2.5''),
                               Lit ''. Must be a positive integer'']))
   \<and> ''daily'' \<in> set valid_periods
   \<and> obsidian_get_recent_periodic_notes demo_config demo_client ''daily'' (Some (PInt 0)) None =
       ([], Inl (RuntimeError [Lit ''Invalid limit: '', Fmt (PInt 0),
                               Lit ''. Must be a positive integer'']))
   \<and> not_int_or_below_one (PInt (- (10 ^ int_max_str_digits)))
   \<and> obsidian_get_recent_changes demo_config demo_client
        (Some (PInt (- (10 ^ int_max_str_digits)))) None =
       ([], Inl int_str_digits_error)
   \<and> fst (obsidian_get_recent_changes demo_config demo_client (Some (PInt 3)) (Some (PInt 7))) =
       [Construct ''secret'' ''127.0.0.1'', Invoke (GetRecentChanges (PInt 3) (PInt 7))]
   \<and> fst (obsidian_get_recent_periodic_notes demo_config demo_client ''daily''
            (Some (PInt 3)) (Some (PBool True))) =
       [Construct ''secret'' ''127.0.0.1'',
        Invoke (GetRecentPeriodicNotes ''daily'' (PInt 3) (PBool True))]"
proof -
  have z: "not_int_or_below_one (PInt 0)" by (simp add: not_int_or_below_one_def)
  have zf: "\<not> has_oversized_int (PInt 0)" by (rule small_int_formattable) simp
  have f: "not_int_or_below_one (PFloat ''2.5'')" by (simp add: not_int_or_below_one_def)
  have d: "''daily'' \<in> set valid_periods" by (simp add: valid_periods_def)
  have pos: "(0::int) < 10 ^ int_max_str_digits" by simp
  from pos have neg: "- (10 ^ int_max_str_digits) < (1::int)" by linarith
  from neg have h: "not_int_or_below_one (PInt (- (10 ^ int_max_str_digits)))"
    by (simp add: not_int_or_below_one_def)
  have ho: "has_oversized_int (PInt (- (10 ^ int_max_str_digits)))" by simp
  have small:
    "obsidian_get_recent_changes demo_config demo_client (Some (PInt 0)) None =
       ([], Inl (RuntimeError [Lit ''Invalid limit: '', Fmt (PInt 0),
                               Lit ''. Must be a positive integer'']))
     \<and> obsidian_get_recent_changes demo_config demo_client (Some (PInt 3)) (Some (PFloat ''2.5'')) =
       ([], Inl (RuntimeError [Lit ''Invalid days: '', Fmt (PFloat ''2.5''),
                               Lit ''. Must be a positive integer'']))
     \<and> obsidian_get_recent_periodic_notes demo_config demo_client ''daily'' (Some (PInt 0)) None =
       ([], Inl (RuntimeError [Lit ''Invalid limit: '', Fmt (PInt 0),
                               Lit ''. Must be a positive integer'']))
     \<and> fst (obsidian_get_recent_changes demo_config demo_client (Some (PInt 3)) (Some (PInt 7))) =
       [Construct ''secret'' ''127.0.0.1'', Invoke (GetRecentChanges (PInt 3) (PInt 7))]
     \<and> fst (obsidian_get_recent_periodic_notes demo_config demo_client ''daily''
            (Some (PInt 3)) (Some (PBool True))) =
       [Construct ''secret'' ''127.0.0.1'',
        Invoke (GetRecentPeriodicNotes ''daily'' (PInt 3) (PBool True))]"
    using z zf f d
      numeric_parameters_validated [where limit = "PInt 0" and cfg = demo_config
        and ob = demo_client and days_arg = None and n = 3 and days = "PFloat ''2.5''"
        and period = "''daily''" and include_arg = None and d = 7 and b = True]
    by (simp add: demo_config_def)
  have "not_int_or_below_one (PInt (- (10 ^ int_max_str_digits))) \<longrightarrow>
      obsidian_get_recent_changes demo_config demo_client
        (Some (PInt (- (10 ^ int_max_str_digits)))) None =
        ([], Inl (if has_oversized_int (PInt (- (10 ^ int_max_str_digits)))
                  then int_str_digits_error
                  else RuntimeError [Lit ''Invalid limit: '',
                                     Fmt (PInt (- (10 ^ int_max_str_digits))),
                                     Lit ''. Must be a positive integer'']))"
    by (rule conjunct1 [OF numeric_parameters_validated
          [where limit = "PInt (- (10 ^ int_max_str_digits))" and cfg = demo_config
             and ob = demo_client and days_arg = None]])
  with h ho have large:
    "obsidian_get_recent_changes demo_config demo_client
        (Some (PInt (- (10 ^ int_max_str_digits)))) None = ([], Inl int_str_digits_error)"
    by (simp del: has_oversized_int.simps)
  from z f d h small large show ?thesis by blast
qed

section \<open>No upper bound on the limit\<close>

text \<open>
  C10. Every integer limit from 1 up is accepted by \<^verbatim>\<open>obsidian_get_recent_periodic_notes\<close>
  (period valid, \<^verbatim>\<open>include_content\<close> a boolean) and by \<^verbatim>\<open>obsidian_get_recent_changes\<close>
  (days an integer from 1 up): the client is called with the limit as given, however large,
  and the handler returns the client's result as JSON text, or ends with the client's
  exception. The maxima of 50 and 100 in the docstrings are not enforced.
\<close>

theorem limit_has_no_upper_bound:
  "1 \<le> n \<and> period \<in> set valid_periods \<and> 1 \<le> d \<longrightarrow>
     obsidian_get_recent_periodic_notes cfg ob period (Some (PInt n)) (Some (PBool b)) =
       ([Construct (api_key cfg) (obsidian_host cfg),
         Invoke (GetRecentPeriodicNotes period (PInt n) (PBool b))],
        (case ob (api_key cfg) (obsidian_host cfg) (GetRecentPeriodicNotes period (PInt n) (PBool b)) of
           Inl e \<Rightarrow> Inl (ClientError e)
         | Inr results \<Rightarrow> Inr (PStr (json_dumps results))))
     \<and> obsidian_get_recent_changes cfg ob (Some (PInt n)) (Some (PInt d)) =
       ([Construct (api_key cfg) (obsidian_host cfg), Invoke (GetRecentChanges (PInt n) (PInt d))],
        (case ob (api_key cfg) (obsidian_host cfg) (GetRecentChanges (PInt n) (PInt d)) of
           Inl e \<Rightarrow> Inl (ClientError e)
         | Inr results \<Rightarrow> Inr (PStr (json_dumps results))))"
  by (simp add: obsidian_get_recent_periodic_notes_def obsidian_get_recent_changes_def
      arg_or_def Let_def not_int_or_below_one_cases and_then_def invoke_def split: sum.splits)

theorem limit_has_no_upper_bound_witness:
  "(1::int) \<le> 100000 \<and> ''weekly'' \<in> set valid_periods \<and> (1::int) \<le> 90
   \<and> obsidian_get_recent_periodic_notes demo_config demo_client ''weekly''
        (Some (PInt 100000)) (Some (PBool False)) =
       ([Construct ''secret'' ''127.0.0.1'',
         Invoke (GetRecentPeriodicNotes ''weekly'' (PInt 100000) (PBool False))],
        Inr (PStr ''[]''))
   \<and> obsidian_get_recent_changes demo_config demo_client (Some (PInt 100000)) (Some (PInt 90)) =
       ([Construct ''secret'' ''127.0.0.1'', Invoke (GetRecentChanges (PInt 100000) (PInt 90))],
        Inr (PStr ''[]''))"
proof -
  have w: "''weekly'' \<in> set valid_periods" by (simp add: valid_periods_def)
  show ?thesis
    using w limit_has_no_upper_bound [of 100000 "''weekly''" 90 demo_config demo_client False]
    by (simp add: demo_config_def demo_client_def json_dumps_def)
qed

section \<open>Validation of the boolean parameters\<close>

text \<open>
  C7. A value that is not a boolean is to make the handler raise a validation error
  before any call to the vault. \<^verbatim>\<open>obsidian_delete_file\<close> does not: it tests the truth
  value of \<^verbatim>\<open>confirm\<close> and not its type, so the string \<^verbatim>\<open>yes\<close> and the number 1, neither
  of them a boolean, pass the gate; the client is constructed, the delete operation is
  invoked and the handler reports the deletion.
\<close>

theorem delete_file_accepts_non_boolean_confirm:
  "\<not> is_bool_instance (PStr ''yes'')
   \<and> obsidian_delete_file demo_config demo_client ''a.md'' (Some (PStr ''yes'')) =
       ([Construct ''secret'' ''127.0.0.1'', Invoke (DeleteFile ''a.md'')],
        Inr (PStr ''Successfully deleted a.md''))
   \<and> \<not> is_bool_instance (PInt 1)
   \<and> obsidian_delete_file demo_config demo_client ''a.md'' (Some (PInt 1)) =
       ([Construct ''secret'' ''127.0.0.1'', Invoke (DeleteFile ''a.md'')],
        Inr (PStr ''Successfully deleted a.md''))"
  by (simp add: obsidian_delete_file_def arg_or_def and_then_def invoke_def demo_config_def
      demo_client_def)

section \<open>The complex search passes its query through\<close>

text \<open>
  C6. For every query value, \<^verbatim>\<open>obsidian_complex_search\<close> constructs the client and calls
  its JSON search with that very value, whatever its structure; it returns the JSON text
  of the results exactly as the client gave them, or ends with the client's exception.
\<close>

theorem complex_search_passes_through:
  "obsidian_complex_search cfg ob query =
     ([Construct (api_key cfg) (obsidian_host cfg), Invoke (SearchJson query)],
      (case ob (api_key cfg) (obsidian_host cfg) (SearchJson query) of
         Inl e \<Rightarrow> Inl (ClientError e)
       | Inr results \<Rightarrow> Inr (PStr (json_dumps results))))"
  by (simp add: obsidian_complex_search_def and_then_def invoke_def split: sum.splits)

theorem complex_search_passes_through_witness:
  "obsidian_complex_search demo_config demo_client
      (PDict [(''glob'', PList [PStr ''*.md'', PDict [(''var'', PStr ''path'')]])]) =
     ([Construct ''secret'' ''127.0.0.1'',
       Invoke (SearchJson (PDict [(''glob'', PList [PStr ''*.md'', PDict [(''var'', PStr ''path'')]])]))],
      Inr (PStr (json_dumps (PList [PStr ''a.md'']))))
   \<and> fst (obsidian_complex_search demo_config demo_client (PInt 7)) =
     [Construct ''secret'' ''127.0.0.1'', Invoke (SearchJson (PInt 7))]"
  using complex_search_passes_through [of demo_config demo_client
          "PDict [(''glob'', PList [PStr ''*.md'', PDict [(''var'', PStr ''path'')]])]"]
        complex_search_passes_through [of demo_config demo_client "PInt 7"]
  by (simp add: demo_config_def demo_client_def)

section \<open>Start of the process\<close>

text \<open>
  C9. When \<^verbatim>\<open>OBSIDIAN_API_KEY\<close> is not in the environment, or is the empty string, the
  import of the module raises a \<^verbatim>\<open>ValueError\<close>, and a tool call to such a process gets
  that error with nothing done to the outside. When the key is there and
  \<^verbatim>\<open>OBSIDIAN_HOST\<close> is not, the host is 127.0.0.1.
\<close>

theorem startup_requires_api_key:
  "(environ ''OBSIDIAN_API_KEY'' = None \<or> environ ''OBSIDIAN_API_KEY'' = Some [] \<longrightarrow>
      module_init environ cwd =
        Inl (ValueError [Lit ''OBSIDIAN_API_KEY environment variable required. Working directory: '',
                         Fmt (PStr cwd)])
      \<and> serve environ cwd ob t =
        ([], Inl (ValueError [Lit ''OBSIDIAN_API_KEY environment variable required. Working directory: '',
                              Fmt (PStr cwd)])))
   \<and> (environ ''OBSIDIAN_API_KEY'' = Some k \<and> k \<noteq> [] \<and> environ ''OBSIDIAN_HOST'' = None \<longrightarrow>
        module_init environ cwd = Inr \<lparr>api_key = k, obsidian_host = ''127.0.0.1''\<rparr>)
   \<and> (environ ''OBSIDIAN_API_KEY'' = Some k \<and> k \<noteq> [] \<and> environ ''OBSIDIAN_HOST'' = Some h \<longrightarrow>
        module_init environ cwd = Inr \<lparr>api_key = k, obsidian_host = h\<rparr>)"
  by (auto simp add: module_init_def serve_def)

theorem startup_requires_api_key_witness:
  "module_init Map.empty ''/srv'' =
     Inl (ValueError [Lit ''OBSIDIAN_API_KEY environment variable required. Working directory: '',
                      Fmt (PStr ''/srv'')])
   \<and> serve [''OBSIDIAN_API_KEY'' \<mapsto> ''''] ''/srv'' demo_client (Tool_delete_file ''a.md'' (Some True)) =
     ([], Inl (ValueError [Lit ''OBSIDIAN_API_KEY environment variable required. Working directory: '',
                           Fmt (PStr ''/srv'')]))
   \<and> module_init [''OBSIDIAN_API_KEY'' \<mapsto> ''secret''] ''/srv'' =
     Inr \<lparr>api_key = ''secret'', obsidian_host = ''127.0.0.1''\<rparr>"
  using startup_requires_api_key [of Map.empty "''/srv''" demo_client Tool_list_files_in_vault
          "''secret''" "''h''"]
        startup_requires_api_key [of "[''OBSIDIAN_API_KEY'' \<mapsto> '''']" "''/srv''" demo_client
          "Tool_delete_file ''a.md'' (Some True)" "''secret''" "''h''"]
        startup_requires_api_key [of "[''OBSIDIAN_API_KEY'' \<mapsto> ''secret'']" "''/srv''" demo_client
          Tool_list_files_in_vault "''secret''" "''h''"]
  by simp

section \<open>What the handlers return\<close>

text \<open>
  C4. A plain content retrieval is to return the content as raw text.
  \<^verbatim>\<open>obsidian_get_file_contents\<close> does not: it returns \<^verbatim>\<open>json.dumps(content, indent=2)\<close>,
  so a file whose content is the two letters \<^verbatim>\<open>hi\<close> comes back as the four characters
  of the JSON string literal, quotes included. The periodic note, for the same kind of
  answer of the client, is returned as the client gave it.
\<close>

theorem get_file_contents_returns_json_literal:
  "demo_client ''secret'' ''127.0.0.1'' (GetFileContents ''a.md'') = Inr (PStr ''hi'')
   \<and> obsidian_get_file_contents demo_config demo_client ''a.md'' =
       ([Construct ''secret'' ''127.0.0.1'', Invoke (GetFileContents ''a.md'')],
        Inr (PStr [CHR 0x22, CHR ''h'', CHR ''i'', CHR 0x22]))
   \<and> snd (obsidian_get_file_contents demo_config demo_client ''a.md'') \<noteq> Inr (PStr ''hi'')
   \<and> demo_client ''secret'' ''127.0.0.1'' (GetPeriodicNote ''daily'' ''content'') = Inr (PStr ''today'')
   \<and> snd (obsidian_get_periodic_note demo_config demo_client ''daily'' None) = Inr (PStr ''today'')"
  by (simp add: obsidian_get_file_contents_def obsidian_get_periodic_note_def and_then_def
      invoke_def demo_config_def demo_client_def json_dumps_def encode_str_def escape_char_def
      arg_or_def valid_periods_def valid_types_def)

section \<open>The formatting of the simple search\<close>

lemma format_match_shape: "raw_match m \<Longrightarrow> format_match m = Inr (shape_match m)"
proof -
  assume r: "raw_match m"
  then obtain kvs where m: "m = PDict kvs"
    by (cases m) (simp_all add: raw_match_def)
  show ?thesis
  proof (cases "map_of kvs ''match''")
    case None
    then show ?thesis
      by (simp add: m format_match_def shape_match_def bind_e_def field_or_def)
  next
    case (Some p)
    with r m obtain pkvs where p: "p = PDict pkvs"
      by (cases p) (simp_all add: raw_match_def)
    from Some p show ?thesis
      by (simp add: m format_match_def shape_match_def bind_e_def field_or_def)
  qed
qed

lemma format_matches_shape:
  "list_all raw_match ms \<Longrightarrow> format_matches ms acc = Inr (acc @ map shape_match ms)"
  by (induction ms arbitrary: acc) (simp_all add: format_match_shape bind_e_def)

lemma raw_result_matches:
  assumes "raw_result r"
  obtains kvs ms where "r = PDict kvs" "raw_matches (map_of kvs ''matches'') = Some ms"
    "list_all raw_match ms"
proof -
  from assms obtain kvs where r: "r = PDict kvs"
    by (cases r) (simp_all add: raw_result_def)
  with assms obtain ms where "raw_matches (map_of kvs ''matches'') = Some ms" "list_all raw_match ms"
    by (auto simp add: raw_result_def split: option.splits)
  with r that show thesis by blast
qed

lemma raw_matches_iter:
  "raw_matches v = Some ms \<Longrightarrow>
   py_iter (case v of None \<Rightarrow> PList [] | Some x \<Rightarrow> x) = Inr ms"
  by (cases v rule: raw_matches.cases) simp_all

lemma format_result_shape: "raw_result r \<Longrightarrow> format_result r = Inr (shape_result r)"
proof -
  assume "raw_result r"
  then obtain kvs ms where r: "r = PDict kvs"
    and ms: "raw_matches (map_of kvs ''matches'') = Some ms" and all: "list_all raw_match ms"
    by (rule raw_result_matches)
  from raw_matches_iter [OF ms] format_matches_shape [OF all, of "[]"] ms show ?thesis
    by (simp add: r format_result_def shape_result_def bind_e_def field_or_def)
qed

lemma format_results_shape:
  "list_all raw_result rs \<Longrightarrow> format_results rs acc = Inr (acc @ map shape_result rs)"
  by (induction rs arbitrary: acc) (simp_all add: format_result_shape bind_e_def)

text \<open>
  C5. When the client's search returns a list of raw results (each a dict whose
  \<^verbatim>\<open>matches\<close>, if present, is a list of dicts whose \<^verbatim>\<open>match\<close>, if present, is a dict),
  \<^verbatim>\<open>obsidian_simple_search\<close> returns the JSON text of the list that has, for each raw
  result and in the same order, the dict with exactly the keys \<^verbatim>\<open>filename\<close>, \<^verbatim>\<open>score\<close>
  and \<^verbatim>\<open>matches\<close>, where \<^verbatim>\<open>matches\<close> has, for each raw match and in the same order, the
  dict with exactly the keys \<^verbatim>\<open>context\<close> and \<^verbatim>\<open>match_position\<close>, the latter a dict with
  exactly \<^verbatim>\<open>start\<close> and \<^verbatim>\<open>end\<close>. Each value is the raw item's field, or, when the field
  is absent, the empty string (filename, context) or 0 (score, start, end).
\<close>

theorem simple_search_formats_results:
  "ob (api_key cfg) (obsidian_host cfg) (Search query (arg_or context_length_arg (PInt 100))) =
     Inr (PList rs)
   \<and> list_all raw_result rs \<longrightarrow>
   obsidian_simple_search cfg ob query context_length_arg =
     ([Construct (api_key cfg) (obsidian_host cfg),
       Invoke (Search query (arg_or context_length_arg (PInt 100)))],
      Inr (PStr (json_dumps (PList (map shape_result rs)))))
   \<and> length (map shape_result rs) = length rs
   \<and> (\<forall>i < length rs.
        map shape_result rs ! i =
          PDict [(''filename'', field_or (rs ! i) ''filename'' (PStr [])),
                 (''score'', field_or (rs ! i) ''score'' (PInt 0)),
                 (''matches'',
                    PList (map (\<lambda>m.
                      PDict [(''context'', field_or m ''context'' (PStr [])),
                             (''match_position'',
                                PDict [(''start'',
                                          field_or (field_or m ''match'' (PDict [])) ''start'' (PInt 0)),
                                       (''end'',
                                          field_or (field_or m ''match'' (PDict [])) ''end'' (PInt 0))])])
                      (case raw_matches (field (rs ! i) ''matches'') of None \<Rightarrow> [] | Some ms \<Rightarrow> ms)))])"
proof (intro impI, elim conjE)
  assume c: "ob (api_key cfg) (obsidian_host cfg) (Search query (arg_or context_length_arg (PInt 100))) =
     Inr (PList rs)"
    and w: "list_all raw_result rs"
  have shape: "shape_match = (\<lambda>m.
      PDict [(''context'', field_or m ''context'' (PStr [])),
             (''match_position'',
                PDict [(''start'', field_or (field_or m ''match'' (PDict [])) ''start'' (PInt 0)),
                       (''end'', field_or (field_or m ''match'' (PDict [])) ''end'' (PInt 0))])])"
    by (rule ext) (simp add: shape_match_def)
  have run: "obsidian_simple_search cfg ob query context_length_arg =
     ([Construct (api_key cfg) (obsidian_host cfg),
       Invoke (Search query (arg_or context_length_arg (PInt 100)))],
      Inr (PStr (json_dumps (PList (map shape_result rs)))))"
    using c format_results_shape [OF w, of "[]"]
    by (simp add: obsidian_simple_search_def and_then_def invoke_def bind_e_def Let_def)
  have each: "\<forall>i < length rs.
        map shape_result rs ! i =
          PDict [(''filename'', field_or (rs ! i) ''filename'' (PStr [])),
                 (''score'', field_or (rs ! i) ''score'' (PInt 0)),
                 (''matches'',
                    PList (map (\<lambda>m.
                      PDict [(''context'', field_or m ''context'' (PStr [])),
                             (''match_position'',
                                PDict [(''start'',
                                          field_or (field_or m ''match'' (PDict [])) ''start'' (PInt 0)),
                                       (''end'',
                                          field_or (field_or m ''match'' (PDict [])) ''end'' (PInt 0))])])
                      (case raw_matches (field (rs ! i) ''matches'') of None \<Rightarrow> [] | Some ms \<Rightarrow> ms)))]"
    by (simp add: shape_result_def shape [symmetric])
  from run each show "obsidian_simple_search cfg ob query context_length_arg =
     ([Construct (api_key cfg) (obsidian_host cfg),
       Invoke (Search query (arg_or context_length_arg (PInt 100)))],
      Inr (PStr (json_dumps (PList (map shape_result rs)))))
   \<and> length (map shape_result rs) = length rs
   \<and> (\<forall>i < length rs.
        map shape_result rs ! i =
          PDict [(''filename'', field_or (rs ! i) ''filename'' (PStr [])),
                 (''score'', field_or (rs ! i) ''score'' (PInt 0)),
                 (''matches'',
                    PList (map (\<lambda>m.
                      PDict [(''context'', field_or m ''context'' (PStr [])),
                             (''match_position'',
                                PDict [(''start'',
                                          field_or (field_or m ''match'' (PDict [])) ''start'' (PInt 0)),
                                       (''end'',
                                          field_or (field_or m ''match'' (PDict [])) ''end'' (PInt 0))])])
                      (case raw_matches (field (rs ! i) ''matches'') of None \<Rightarrow> [] | Some ms \<Rightarrow> ms)))])"
    by simp
qed

theorem simple_search_formats_results_witness:
  "demo_client ''secret'' ''127.0.0.1'' (Search ''alpha'' (PInt 100)) =
     Inr (PList [PDict [(''filename'', PStr ''a.md''), (''score'', PInt 3),
                        (''matches'',
                           PList [PDict [(''context'', PStr ''alpha''),
                                         (''match'', PDict [(''start'', PInt 0), (''end'', PInt 5)])],
                                  PDict []])],
                 PDict []])
   \<and> obsidian_simple_search demo_config demo_client ''alpha'' None =
     ([Construct ''secret'' ''127.0.0.1'', Invoke (Search ''alpha'' (PInt 100))],
      Inr (PStr (json_dumps
        (PList [PDict [(''filename'', PStr ''a.md''), (''score'', PInt 3),
                       (''matches'',
                          PList [PDict [(''context'', PStr ''alpha''),
                                        (''match_position'',
                                           PDict [(''start'', PInt 0), (''end'', PInt 5)])],
                                 PDict [(''context'', PStr []),
                                        (''match_position'',
                                           PDict [(''start'', PInt 0), (''end'', PInt 0)])]])],
                PDict [(''filename'', PStr []), (''score'', PInt 0), (''matches'', PList [])]]))))"
proof -
  let ?rs = "[PDict [(''filename'', PStr ''a.md''), (''score'', PInt 3),
                        (''matches'',
                           PList [PDict [(''context'', PStr ''alpha''),
                                         (''match'', PDict [(''start'', PInt 0), (''end'', PInt 5)])],
                                  PDict []])],
                 PDict []]"
  have c: "demo_client (api_key demo_config) (obsidian_host demo_config)
             (Search ''alpha'' (arg_or None (PInt 100))) = Inr (PList ?rs)"
    by (simp add: demo_client_def demo_raw_results_def)
  have w: "list_all raw_result ?rs"
    by (simp add: raw_result_def raw_match_def)
  have s: "map shape_result ?rs =
     [PDict [(''filename'', PStr ''a.md''), (''score'', PInt 3),
                       (''matches'',
                          PList [PDict [(''context'', PStr ''alpha''),
                                        (''match_position'',
                                           PDict [(''start'', PInt 0), (''end'', PInt 5)])],
                                 PDict [(''context'', PStr []),
                                        (''match_position'',
                                           PDict [(''start'', PInt 0), (''end'', PInt 0)])]])],
                PDict [(''filename'', PStr []), (''score'', PInt 0), (''matches'', PList [])]]"
    by (simp add: shape_result_def shape_match_def field_or_def)
  show ?thesis
    using c w s
      simple_search_formats_results [where ob = demo_client and cfg = demo_config
        and query = "''alpha''" and context_length_arg = None and rs = ?rs]
    by (simp add: demo_config_def arg_or_def)
qed

section \<open>The batch read\<close>

lemma sublist_concat_map:
  assumes "p \<in> set ps" and "sublist x (f p)"
  shows "sublist x (concat (map f ps))"
proof -
  from assms(1) obtain ys zs where ps: "ps = ys @ p # zs"
    by (auto dest: split_list)
  from assms(2) obtain a b where fp: "f p = a @ x @ b"
    by (auto simp add: sublist_def)
  have "concat (map f ps) = (concat (map f ys) @ a) @ x @ (b @ concat (map f zs))"
    by (simp add: ps fp)
  then show ?thesis
    unfolding sublist_def by blast
qed

text \<open>
  C8. With a client whose batch read is as the spec describes it, the handler applied to
  the two paths \<open>a\<close> and \<open>b\<close>, where \<open>a\<close> exists with content \<open>ca\<close> and \<open>b\<close> does
  not, returns one text: the header of \<open>a\<close>, the content of \<open>a\<close>, the header of
  \<open>b\<close> and the error marker of \<open>b\<close>; it does not raise. For every list of paths
  the handler returns a text, in which each path that exists has its content and each
  path that is missing has its marker.
\<close>

theorem batch_read_marks_missing_files:
  assumes "\<forall>ps. ob (api_key cfg) (obsidian_host cfg) (GetBatchFileContents ps) =
             Inr (PStr (spec_get_batch_file_contents header marker v ps))"
  shows "(v a = Some ca \<and> v b = None \<longrightarrow>
            obsidian_batch_get_file_contents cfg ob [a, b] =
              ([Construct (api_key cfg) (obsidian_host cfg), Invoke (GetBatchFileContents [a, b])],
               Inr (PStr (header a @ ca @ header b @ marker b))))
         \<and> (\<exists>blob. snd (obsidian_batch_get_file_contents cfg ob filepaths) = Inr (PStr blob)
              \<and> (\<forall>p \<in> set filepaths.
                    sublist (case v p of None \<Rightarrow> marker p | Some c \<Rightarrow> c) blob))"
proof -
  have run: "obsidian_batch_get_file_contents cfg ob ps =
      ([Construct (api_key cfg) (obsidian_host cfg), Invoke (GetBatchFileContents ps)],
       Inr (PStr (spec_get_batch_file_contents header marker v ps)))" for ps
    using assms by (simp add: obsidian_batch_get_file_contents_def and_then_def invoke_def)
  have pair: "v a = Some ca \<Longrightarrow> v b = None \<Longrightarrow>
      spec_get_batch_file_contents header marker v [a, b] = header a @ ca @ header b @ marker b"
    by (simp add: spec_get_batch_file_contents_def)
  have each: "sublist (case v p of None \<Rightarrow> marker p | Some c \<Rightarrow> c)
                (spec_get_batch_file_contents header marker v filepaths)"
    if "p \<in> set filepaths" for p
    unfolding spec_get_batch_file_contents_def
    using that by (rule sublist_concat_map) simp
  from run pair each show ?thesis by simp
qed

theorem batch_read_marks_missing_files_witness:
  "demo_vault ''a.md'' = Some ''alpha'' \<and> demo_vault ''b.md'' = None
   \<and> obsidian_batch_get_file_contents demo_config demo_client [''a.md'', ''b.md''] =
       ([Construct ''secret'' ''127.0.0.1'', Invoke (GetBatchFileContents [''a.md'', ''b.md''])],
        Inr (PStr (demo_header ''a.md'' @ ''alpha'' @ demo_header ''b.md'' @ demo_marker ''b.md'')))"
proof -
  have c: "\<forall>ps. demo_client (api_key demo_config) (obsidian_host demo_config) (GetBatchFileContents ps) =
             Inr (PStr (spec_get_batch_file_contents demo_header demo_marker demo_vault ps))"
    by (simp add: demo_client_def)
  have a: "demo_vault ''a.md'' = Some ''alpha''" by (simp add: demo_vault_def)
  have b: "demo_vault ''b.md'' = None" by (simp add: demo_vault_def)
  show ?thesis
    using a b
      batch_read_marks_missing_files [where ob = demo_client and cfg = demo_config
        and header = demo_header and marker = demo_marker and v = demo_vault
        and a = "''a.md''" and ca = "''alpha''" and b = "''b.md''", OF c]
    by (simp add: demo_config_def)
qed

end
